theory Spec2Isabelle
  imports Complex_Main "HOL-Library.Char_ord" "HOL-Library.List_Lexorder"
begin

section \<open>The order table\<close>

text \<open>
  The dashboard script \<^verbatim>\<open>dashboard.py\<close> works on one pandas table, one row per
  order-item line. A timestamp column is \<^verbatim>\<open>datetime64[ns]\<close>: a number of nanoseconds
  since the epoch, or NaT. A nullable cell is an \<open>option\<close>, \<open>None\<close> being NaN/NaT:
  \<^verbatim>\<open>pd.read_csv\<close> makes an empty cell a missing value, so the order id, the
  category, the price, the review score and the three dates may be missing.
  The order status is only ever compared with three literals; an empty status
  cell compares unequal to each, as any other text does.
  Float columns are modelled with exact rationals: rounding is not modelled.
  The record is polymorphic in the type of a date cell: text as read from the CSV
  file, a timestamp after \<^verbatim>\<open>pd.to_datetime\<close>.
\<close>

type_synonym timestamp = int
type_synonym date = int

record 'd row =
  order_id :: "string option"
  order_status :: string
  price :: "rat option"
  product_category_name_english :: "string option"
  review_score :: "rat option"
  order_purchase_timestamp :: "'d option"
  order_delivered_customer_date :: "'d option"
  order_estimated_delivery_date :: "'d option"

type_synonym table = "timestamp row list"

text \<open>A float result that may be one of the IEEE special values.\<close>

datatype fnum = NaN | PosInf | NegInf | Fin rat

definition ns_per_day :: int where
  "ns_per_day = 86400000000000"

text \<open>\<^verbatim>\<open>Timestamp.date()\<close>: the calendar day, time of day dropped.\<close>

definition dt_date :: "timestamp \<Rightarrow> date" where
  "dt_date t = t div ns_per_day"

text \<open>\<^verbatim>\<open>Timedelta.days\<close>: the days component, rounded towards minus infinity.\<close>

definition dt_days :: "int \<Rightarrow> int" where
  "dt_days d = d div ns_per_day"

section \<open>Loading\<close>

text \<open>
  The two user-visible errors of the script, each shown with \<^verbatim>\<open>st.error\<close>:
  the missing file (line 40) and the reversed date range (line 83).
\<close>

datatype ui_error = DataNotFound | InvalidRange

text \<open>
  \<^verbatim>\<open>pd.to_datetime(col, errors='coerce')\<close> on one cell: an empty cell stays
  missing; a text that the parser (a parameter, it is pandas' own) rejects
  becomes NaT.
\<close>

definition to_datetime_coerce :: "(string \<Rightarrow> timestamp option) \<Rightarrow> string option \<Rightarrow> timestamp option" where
  "to_datetime_coerce parse c = (case c of None \<Rightarrow> None | Some s \<Rightarrow> parse s)"

definition convert_dates :: "(string \<Rightarrow> timestamp option) \<Rightarrow> string row \<Rightarrow> timestamp row" where
  "convert_dates parse r =
     \<lparr> order_id = order_id r,
       order_status = order_status r,
       price = price r,
       product_category_name_english = product_category_name_english r,
       review_score = review_score r,
       order_purchase_timestamp = to_datetime_coerce parse (order_purchase_timestamp r),
       order_delivered_customer_date = to_datetime_coerce parse (order_delivered_customer_date r),
       order_estimated_delivery_date = to_datetime_coerce parse (order_estimated_delivery_date r) \<rparr>"

text \<open>
  \<^verbatim>\<open>load_data\<close>: the file system is the content of \<^verbatim>\<open>all_data.csv\<close> when the
  file exists. The result is the errors shown and the value returned.
\<close>

definition load_data :: "(string \<Rightarrow> timestamp option) \<Rightarrow> string row list option \<Rightarrow> ui_error list \<times> table option" where
  "load_data parse file =
     (case file of
        None \<Rightarrow> ([DataNotFound], None)
      | Some csv \<Rightarrow> ([], Some (map (convert_dates parse) csv)))"

section \<open>The date-range filter\<close>

text \<open>
  Lines 90-93. A comparison with a missing date is False, so a row without a
  purchase timestamp is in neither mask.
\<close>

definition in_range :: "date \<Rightarrow> date \<Rightarrow> timestamp row \<Rightarrow> bool" where
  "in_range start_date end_date r =
     (case order_purchase_timestamp r of
        None \<Rightarrow> False
      | Some t \<Rightarrow> start_date \<le> dt_date t \<and> dt_date t \<le> end_date)"

definition main_df :: "table \<Rightarrow> date \<Rightarrow> date \<Rightarrow> table" where
  "main_df all_df start_date end_date = filter (in_range start_date end_date) all_df"

section \<open>The three KPI\<close>

definition is_delivered :: "timestamp row \<Rightarrow> bool" where
  "is_delivered r = (order_status r = ''delivered'')"

definition is_canceled :: "timestamp row \<Rightarrow> bool" where
  "is_canceled r = (order_status r = ''canceled'' \<or> order_status r = ''unavailable'')"

text \<open>The values present in a column, in order.\<close>

fun dropna :: "'a option list \<Rightarrow> 'a list" where
  "dropna [] = []"
| "dropna (None # xs) = dropna xs"
| "dropna (Some x # xs) = x # dropna xs"

text \<open>\<^verbatim>\<open>Series.sum()\<close> skips missing values; the empty sum is 0.\<close>

definition sum_skipna :: "rat option list \<Rightarrow> rat" where
  "sum_skipna xs = sum_list (dropna xs)"

text \<open>
  \<^verbatim>\<open>Series.nunique()\<close>: the number of distinct values, missing values not
  counted.
\<close>

definition nunique :: "string option list \<Rightarrow> nat" where
  "nunique xs = length (remdups (dropna xs))"

text \<open>\<^verbatim>\<open>Series.mean()\<close> skips missing values; with no value left it is NaN.\<close>

definition mean_skipna :: "rat option list \<Rightarrow> fnum" where
  "mean_skipna xs =
     (let vs = dropna xs
      in if vs = [] then NaN else Fin (sum_list vs / of_nat (length vs)))"

definition total_revenue :: "table \<Rightarrow> rat" where
  "total_revenue df = sum_skipna (map price (filter is_delivered df))"

definition total_order :: "table \<Rightarrow> nat" where
  "total_order df = nunique (map order_id df)"

definition avg_score :: "table \<Rightarrow> fnum" where
  "avg_score df = mean_skipna (map review_score df)"

text \<open>
  The format \<^verbatim>\<open>:.2f\<close> of a float: the special values print as their names; how
  a finite value prints is Python's, a parameter here.
\<close>

definition format_2f :: "(rat \<Rightarrow> string) \<Rightarrow> fnum \<Rightarrow> string" where
  "format_2f fin x =
     (case x of NaN \<Rightarrow> ''nan'' | PosInf \<Rightarrow> ''inf'' | NegInf \<Rightarrow> ''-inf'' | Fin q \<Rightarrow> fin q)"

definition avg_score_label :: "(rat \<Rightarrow> string) \<Rightarrow> table \<Rightarrow> string" where
  "avg_score_label fin df = format_2f fin (avg_score df) @ '' / 5.0''"

section \<open>The category aggregate\<close>

text \<open>
  \<^verbatim>\<open>groupby('product_category_name_english')\<close>: one group per distinct category
  present, rows without a category dropped, keys in ascending order.
\<close>

definition group_keys :: "table \<Rightarrow> string list" where
  "group_keys df = sort (remdups (dropna (map product_category_name_english df)))"

definition group_rows :: "table \<Rightarrow> string \<Rightarrow> table" where
  "group_rows df k = filter (\<lambda>r. product_category_name_english r = Some k) df"

definition rev_df :: "table \<Rightarrow> (string \<times> rat) list" where
  "rev_df df =
     (let delivered = filter is_delivered df
      in map (\<lambda>k. (k, sum_skipna (map price (group_rows delivered k)))) (group_keys delivered))"

definition total_orders_cat :: "table \<Rightarrow> (string \<times> nat) list" where
  "total_orders_cat df = map (\<lambda>k. (k, nunique (map order_id (group_rows df k)))) (group_keys df)"

definition cancel_df :: "table \<Rightarrow> (string \<times> nat) list" where
  "cancel_df df =
     (let canceled = filter is_canceled df
      in map (\<lambda>k. (k, nunique (map order_id (group_rows canceled k)))) (group_keys canceled))"

text \<open>
  The rows of \<^verbatim>\<open>q1_df\<close>. After a left merge a count column holds NaN where the
  right table has no row for the category, so both counts are optional.
\<close>

record q1_row =
  q1_category :: string
  q1_total_revenue :: rat
  q1_total_orders :: "nat option"
  q1_canceled_orders :: "nat option"
  q1_cancellation_rate :: fnum

text \<open>
  \<^verbatim>\<open>pd.merge(left, right, on=category, how='left')\<close> where the right table
  comes from a groupby and so has each category once: every left row is kept,
  in order, with the right value or a missing one.
\<close>

definition merge_left :: "(string \<times> 'a) list \<Rightarrow> (string \<times> 'b) list \<Rightarrow> (string \<times> 'a \<times> 'b option) list" where
  "merge_left left right = map (\<lambda>(k, a). (k, a, map_of right k)) left"

definition fillna0 :: "nat option \<Rightarrow> nat option" where
  "fillna0 c = (case c of None \<Rightarrow> Some 0 | Some n \<Rightarrow> Some n)"

text \<open>Line 142: float division, then times 100.\<close>

definition cancellation_rate :: "nat option \<Rightarrow> nat option \<Rightarrow> fnum" where
  "cancellation_rate canceled_orders total_orders =
     (case canceled_orders of
        None \<Rightarrow> NaN
      | Some c \<Rightarrow>
          (case total_orders of
             None \<Rightarrow> NaN
           | Some t \<Rightarrow>
               if t = 0 then (if c = 0 then NaN else PosInf)
               else Fin (of_nat c / of_nat t * 100)))"

definition q1_df :: "table \<Rightarrow> q1_row list" where
  "q1_df df =
     map (\<lambda>(k, (revenue, total_orders), canceled_orders).
            \<lparr> q1_category = k,
              q1_total_revenue = revenue,
              q1_total_orders = total_orders,
              q1_canceled_orders = fillna0 canceled_orders,
              q1_cancellation_rate = cancellation_rate (fillna0 canceled_orders) total_orders \<rparr>)
         (merge_left (merge_left (rev_df df) (total_orders_cat df)) (cancel_df df))"

text \<open>
  Line 145: \<^verbatim>\<open>sort_values(by='total_revenue', ascending=False).head(10)\<close>.
  The order among equal revenues is the sorting routine's; here it is the
  order of the rows before the sort.
\<close>

definition sort_values_desc :: "q1_row list \<Rightarrow> q1_row list" where
  "sort_values_desc qs = sort_key (\<lambda>q. - q1_total_revenue q) qs"

definition top_10_df :: "table \<Rightarrow> q1_row list" where
  "top_10_df df = take 10 (sort_values_desc (q1_df df))"

text \<open>The row of \<^verbatim>\<open>q1_df\<close> for one category, the two merges unfolded.\<close>

definition q1_of :: "table \<Rightarrow> string \<Rightarrow> q1_row" where
  "q1_of df k =
     \<lparr> q1_category = k,
       q1_total_revenue = sum_skipna (map price (group_rows (filter is_delivered df) k)),
       q1_total_orders = map_of (total_orders_cat df) k,
       q1_canceled_orders = fillna0 (map_of (cancel_df df) k),
       q1_cancellation_rate =
         cancellation_rate (fillna0 (map_of (cancel_df df) k)) (map_of (total_orders_cat df) k) \<rparr>"

section \<open>The first chart\<close>

text \<open>
  Line 165: \<^verbatim>\<open>ax2.set_ylim(0, top_10_df['cancellation_rate'].max() * 1.5)\<close>.
  \<^verbatim>\<open>Series.max()\<close> skips missing values and is NaN when none is left.
\<close>

datatype py_error = ValueError

fun fmax :: "fnum \<Rightarrow> fnum \<Rightarrow> fnum" where
  "fmax NaN y = y"
| "fmax x NaN = x"
| "fmax PosInf y = PosInf"
| "fmax x PosInf = PosInf"
| "fmax NegInf y = y"
| "fmax x NegInf = x"
| "fmax (Fin a) (Fin b) = Fin (max a b)"

definition max_skipna :: "fnum list \<Rightarrow> fnum" where
  "max_skipna xs = foldr fmax xs NaN"

definition ylim_top :: "q1_row list \<Rightarrow> fnum" where
  "ylim_top top_10 =
     (case max_skipna (map q1_cancellation_rate top_10) of
        NaN \<Rightarrow> NaN
      | PosInf \<Rightarrow> PosInf
      | NegInf \<Rightarrow> NegInf
      | Fin m \<Rightarrow> Fin (m * (3 / 2)))"

text \<open>
  Modelled from the library: matplotlib's \<^verbatim>\<open>Axes.set_ylim\<close> is not part of the
  script. It raises \<^verbatim>\<open>ValueError\<close> ("Axis limits cannot be NaN or Inf") when a
  limit is NaN or infinite, and sets the limits otherwise. Nothing in the
  script catches the exception.
\<close>

definition set_ylim :: "fnum \<Rightarrow> fnum \<Rightarrow> py_error + unit" where
  "set_ylim lo hi =
     (case lo of
        Fin b \<Rightarrow> (case hi of Fin t \<Rightarrow> Inr () | _ \<Rightarrow> Inl ValueError)
      | _ \<Rightarrow> Inl ValueError)"

section \<open>The delay aggregate\<close>

text \<open>
  Lines 187-199. The difference of two date cells is missing when one of them
  is; \<^verbatim>\<open>x > 0\<close> is False on a missing number.
\<close>

definition q2_valid :: "timestamp row \<Rightarrow> bool" where
  "q2_valid r =
     (is_delivered r \<and> order_delivered_customer_date r \<noteq> None
        \<and> order_estimated_delivery_date r \<noteq> None)"

definition delay_of :: "timestamp row \<Rightarrow> int option" where
  "delay_of r =
     (case order_delivered_customer_date r of
        None \<Rightarrow> None
      | Some a \<Rightarrow>
          (case order_estimated_delivery_date r of
             None \<Rightarrow> None
           | Some e \<Rightarrow> Some (dt_days (a - e))))"

definition status_of :: "int option \<Rightarrow> string" where
  "status_of x =
     (if (case x of None \<Rightarrow> False | Some d \<Rightarrow> d > 0)
      then ''Terlambat (Late)'' else ''Tepat Waktu (On Time)'')"

record q2_row =
  q2_source :: "timestamp row"
  delay_days :: "int option"
  delivery_status :: string

definition q2_df :: "table \<Rightarrow> q2_row list" where
  "q2_df df =
     map (\<lambda>r. \<lparr> q2_source = r, delay_days = delay_of r,
                 delivery_status = status_of (delay_of r) \<rparr>)
         (filter q2_valid df)"

text \<open>
  Line 202: one mean per delivery status present, keys in ascending order.
  Lines 240-241: \<^verbatim>\<open>Series.get(key, 0)\<close> gives 0 for a status with no row.
\<close>

definition score_summary :: "q2_row list \<Rightarrow> (string \<times> fnum) list" where
  "score_summary q2 =
     map (\<lambda>k. (k, mean_skipna (map (\<lambda>q. review_score (q2_source q))
                                    (filter (\<lambda>q. delivery_status q = k) q2))))
         (sort (remdups (map delivery_status q2)))"

definition series_get :: "(string \<times> fnum) list \<Rightarrow> string \<Rightarrow> fnum \<Rightarrow> fnum" where
  "series_get s k d = (case map_of s k of None \<Rightarrow> d | Some v \<Rightarrow> v)"

definition late_score :: "q2_row list \<Rightarrow> fnum" where
  "late_score q2 = series_get (score_summary q2) ''Terlambat (Late)'' (Fin 0)"

definition ontime_score :: "q2_row list \<Rightarrow> fnum" where
  "ontime_score q2 = series_get (score_summary q2) ''Tepat Waktu (On Time)'' (Fin 0)"

text \<open>Float subtraction on the special values.\<close>

fun fsub :: "fnum \<Rightarrow> fnum \<Rightarrow> fnum" where
  "fsub NaN y = NaN"
| "fsub x NaN = NaN"
| "fsub (Fin a) (Fin b) = Fin (a - b)"
| "fsub PosInf PosInf = NaN"
| "fsub NegInf NegInf = NaN"
| "fsub PosInf y = PosInf"
| "fsub NegInf y = NegInf"
| "fsub (Fin a) PosInf = NegInf"
| "fsub (Fin a) NegInf = PosInf"

text \<open>
  The two buckets as the specification words them, by the sign of the delay,
  and the mean review score of a bucket.
\<close>

definition spec_late_rows :: "q2_row list \<Rightarrow> q2_row list" where
  "spec_late_rows q2 = filter (\<lambda>q. case delay_days q of None \<Rightarrow> False | Some d \<Rightarrow> 0 < d) q2"

definition spec_ontime_rows :: "q2_row list \<Rightarrow> q2_row list" where
  "spec_ontime_rows q2 = filter (\<lambda>q. case delay_days q of None \<Rightarrow> False | Some d \<Rightarrow> d \<le> 0) q2"

definition spec_bucket_mean :: "q2_row list \<Rightarrow> fnum" where
  "spec_bucket_mean rows = mean_skipna (map (\<lambda>q. review_score (q2_source q)) rows)"

section \<open>The script\<close>

text \<open>
  What lines 187-247 put on the page: the table behind the second chart, the
  two scores, the delta of the second metric card (line 244, late minus on
  time) and the drop quoted in the text (line 247, on time minus late).
\<close>

record delay_report =
  d_q2 :: "q2_row list"
  d_ontime_score :: fnum
  d_late_score :: fnum
  d_metric_delta :: fnum
  d_narrative_drop :: fnum

definition delay_section :: "table \<Rightarrow> delay_report" where
  "delay_section df =
     (let q2 = q2_df df; late = late_score q2; ontime = ontime_score q2
      in \<lparr> d_q2 = q2,
           d_ontime_score = ontime,
           d_late_score = late,
           d_metric_delta = fsub late ontime,
           d_narrative_drop = fsub ontime late \<rparr>)"

text \<open>
  What one complete run puts on the page from line 98 on: the three KPI, the
  table behind the first chart and the delay report.
\<close>

record dashboard =
  d_total_revenue :: rat
  d_total_order :: nat
  d_avg_score :: fnum
  d_top_10 :: "q1_row list"
  d_delay :: delay_report

text \<open>
  Lines 98-250 on the filtered table. The KPI and the category aggregate are
  computed first; the first chart then sets its axis limit, and an exception
  there ends the run before the delay section.
\<close>

definition render :: "table \<Rightarrow> py_error + dashboard" where
  "render df =
     (let revenue = total_revenue df; orders = total_order df; score = avg_score df;
          top_10 = top_10_df df
      in case set_ylim (Fin 0) (ylim_top top_10) of
           Inl err \<Rightarrow> Inl err
         | Inr u \<Rightarrow>
             Inr \<lparr> d_total_revenue = revenue,
                   d_total_order = orders,
                   d_avg_score = score,
                   d_top_10 = top_10,
                   d_delay = delay_section df \<rparr>)"

text \<open>
  One run, top to bottom. \<^verbatim>\<open>st.stop()\<close> ends the run, not the server: the
  outcome is a value, with the errors shown so far. An uncaught exception
  ends the run as well. The two dates are what the sidebar widgets returned.
\<close>

datatype outcome =
    Stopped "ui_error list"
  | Raised "ui_error list" py_error
  | Rendered "ui_error list" dashboard

definition dashboard_script ::
  "(string \<Rightarrow> timestamp option) \<Rightarrow> string row list option \<Rightarrow> date \<Rightarrow> date \<Rightarrow> outcome" where
  "dashboard_script parse file start_date end_date =
     (case load_data parse file of
        (errs, None) \<Rightarrow> Stopped errs
      | (errs, Some all_df) \<Rightarrow>
          if start_date > end_date then Stopped (errs @ [InvalidRange])
          else (case render (main_df all_df start_date end_date) of
                  Inl err \<Rightarrow> Raised errs err
                | Inr d \<Rightarrow> Rendered errs d))"

text \<open>
  A session: the script runs again for every input of the user, on the same
  file, and keeps nothing from the run before.
\<close>

definition session ::
  "(string \<Rightarrow> timestamp option) \<Rightarrow> string row list option \<Rightarrow> (date \<times> date) list \<Rightarrow> outcome list" where
  "session parse file inputs = map (\<lambda>(s, e). dashboard_script parse file s e) inputs"

section \<open>A sample table\<close>

text \<open>
  Three delivered orders and a canceled one in Toys (prices 10, 20, 30), an
  order of Auto that was never available, a delivered order of Bed without a
  delivery date, and a row without a purchase timestamp. Day 18993 is
  2022-01-01, day 19002 is 2022-01-10.
\<close>

definition ex_df :: table where
  "ex_df =
     [\<lparr> order_id = Some ''o1'', order_status = ''delivered'', price = Some 10,
         product_category_name_english = Some ''Toys'', review_score = Some 2,
         order_purchase_timestamp = Some (18993 * ns_per_day),
         order_delivered_customer_date = Some (19004 * ns_per_day),
         order_estimated_delivery_date = Some (19002 * ns_per_day) \<rparr>,
      \<lparr> order_id = Some ''o2'', order_status = ''delivered'', price = Some 20,
         product_category_name_english = Some ''Toys'', review_score = Some 5,
         order_purchase_timestamp = Some (18994 * ns_per_day + 1),
         order_delivered_customer_date = Some (19001 * ns_per_day),
         order_estimated_delivery_date = Some (19002 * ns_per_day) \<rparr>,
      \<lparr> order_id = Some ''o3'', order_status = ''delivered'', price = Some 30,
         product_category_name_english = Some ''Toys'', review_score = Some 4,
         order_purchase_timestamp = Some (18995 * ns_per_day + 7),
         order_delivered_customer_date = Some (19002 * ns_per_day + 5),
         order_estimated_delivery_date = Some (19002 * ns_per_day) \<rparr>,
      \<lparr> order_id = Some ''o4'', order_status = ''canceled'', price = None,
         product_category_name_english = Some ''Toys'', review_score = Some 1,
         order_purchase_timestamp = Some (18996 * ns_per_day),
         order_delivered_customer_date = None,
         order_estimated_delivery_date = Some (19003 * ns_per_day) \<rparr>,
      \<lparr> order_id = Some ''o5'', order_status = ''unavailable'', price = None,
         product_category_name_english = Some ''Auto'', review_score = None,
         order_purchase_timestamp = Some (18997 * ns_per_day),
         order_delivered_customer_date = None,
         order_estimated_delivery_date = None \<rparr>,
      \<lparr> order_id = Some ''o6'', order_status = ''delivered'', price = Some 70,
         product_category_name_english = Some ''Bed'', review_score = Some 3,
         order_purchase_timestamp = Some (19000 * ns_per_day + 9),
         order_delivered_customer_date = None,
         order_estimated_delivery_date = Some (19010 * ns_per_day) \<rparr>,
      \<lparr> order_id = Some ''o7'', order_status = ''delivered'', price = Some 1,
         product_category_name_english = None, review_score = None,
         order_purchase_timestamp = None,
         order_delivered_customer_date = None,
         order_estimated_delivery_date = None \<rparr>]"

text \<open>
  A table with empty order ids: the two Garden rows, one delivered and one
  canceled, have none; the Toys row has one.
\<close>

definition ex_noid_df :: table where
  "ex_noid_df =
     [\<lparr> order_id = None, order_status = ''delivered'', price = Some 15,
         product_category_name_english = Some ''Garden'', review_score = Some 4,
         order_purchase_timestamp = Some (18993 * ns_per_day),
         order_delivered_customer_date = Some (19001 * ns_per_day),
         order_estimated_delivery_date = Some (19002 * ns_per_day) \<rparr>,
      \<lparr> order_id = None, order_status = ''canceled'', price = None,
         product_category_name_english = Some ''Garden'', review_score = None,
         order_purchase_timestamp = Some (18994 * ns_per_day),
         order_delivered_customer_date = None,
         order_estimated_delivery_date = None \<rparr>,
      \<lparr> order_id = Some ''o1'', order_status = ''delivered'', price = Some 10,
         product_category_name_english = Some ''Toys'', review_score = Some 5,
         order_purchase_timestamp = Some (18995 * ns_per_day),
         order_delivered_customer_date = Some (19001 * ns_per_day),
         order_estimated_delivery_date = Some (19002 * ns_per_day) \<rparr>]"

text \<open>A table whose only row is a delivered Garden order with an empty order id.\<close>

definition ex_one_noid_df :: table where
  "ex_one_noid_df =
     [\<lparr> order_id = None, order_status = ''delivered'', price = Some 15,
         product_category_name_english = Some ''Garden'', review_score = Some 4,
         order_purchase_timestamp = Some (18993 * ns_per_day),
         order_delivered_customer_date = Some (19001 * ns_per_day),
         order_estimated_delivery_date = Some (19002 * ns_per_day) \<rparr>]"

text \<open>
  A sample file of two lines and a parser that knows three date texts. The
  estimated date of the second line is not a date.
\<close>

definition ex_parse :: "string \<Rightarrow> timestamp option" where
  "ex_parse s =
     (if s = ''2022-01-10 00:00:00'' then Some (19002 * ns_per_day)
      else if s = ''2022-01-12 08:30:00'' then Some (19004 * ns_per_day + 30600000000000)
      else if s = ''2022-01-01 23:59:59'' then Some (18993 * ns_per_day + 86399000000000)
      else None)"

definition ex_csv :: "string row list" where
  "ex_csv =
     [\<lparr> order_id = Some ''o1'', order_status = ''delivered'', price = Some 10,
         product_category_name_english = Some ''Toys'', review_score = Some 2,
         order_purchase_timestamp = Some ''2022-01-01 23:59:59'',
         order_delivered_customer_date = Some ''2022-01-12 08:30:00'',
         order_estimated_delivery_date = Some ''2022-01-10 00:00:00'' \<rparr>,
      \<lparr> order_id = Some ''o2'', order_status = ''canceled'', price = None,
         product_category_name_english = Some ''Toys'', review_score = None,
         order_purchase_timestamp = Some ''2022-01-10 00:00:00'',
         order_delivered_customer_date = None,
         order_estimated_delivery_date = Some ''10/01/22 ??'' \<rparr>]"

section \<open>Properties of the date-range filter\<close>

lemma ns_per_day_pos: "0 < ns_per_day"
  by (simp add: ns_per_day_def)

lemma le_div_int:
  fixes n :: int
  assumes "0 < n"
  shows "(s \<le> t div n) = (s * n \<le> t)"
proof
  assume "s \<le> t div n"
  then have "s * n \<le> (t div n) * n" using assms by (simp add: mult_right_mono)
  also have "\<dots> \<le> t"
  proof -
    have "t = (t div n) * n + t mod n" by simp
    moreover have "0 \<le> t mod n" using assms by simp
    ultimately show ?thesis by linarith
  qed
  finally show "s * n \<le> t" .
next
  assume a: "s * n \<le> t"
  show "s \<le> t div n"
  proof (rule ccontr)
    assume "\<not> s \<le> t div n"
    then have "t div n + 1 \<le> s" by simp
    then have "(t div n + 1) * n \<le> s * n" using assms by (simp only: mult_right_mono less_imp_le)
    moreover have "t < (t div n + 1) * n"
    proof -
      have "t = (t div n) * n + t mod n" by simp
      moreover have "t mod n < n" using assms by simp
      moreover have "(t div n + 1) * n = (t div n) * n + n" by (simp add: algebra_simps)
      ultimately show ?thesis by linarith
    qed
    ultimately show False using a by linarith
  qed
qed

lemma div_le_int:
  fixes n :: int
  assumes "0 < n"
  shows "(t div n \<le> e) = (t < (e + 1) * n)"
proof -
  have "(t div n \<le> e) = (\<not> e + 1 \<le> t div n)" by auto
  also have "\<dots> = (\<not> (e + 1) * n \<le> t)" by (simp only: le_div_int [OF assms])
  also have "\<dots> = (t < (e + 1) * n)" by auto
  finally show ?thesis .
qed

lemma day_interval:
  "(s \<le> dt_date t \<and> dt_date t \<le> e) \<longleftrightarrow> (s * ns_per_day \<le> t \<and> t < (e + 1) * ns_per_day)"
  by (simp only: dt_date_def le_div_int [OF ns_per_day_pos] div_le_int [OF ns_per_day_pos])

text \<open>
  Claim C6. The filtered table holds exactly the rows of the base table, in
  order and with their multiplicity, that have a purchase timestamp whose
  calendar day lies between the start and the end date, both included. The
  time of day plays no part: the timestamps kept are those from the first
  nanosecond of the start day to the last of the end day. The filtered table
  is never longer than the base table.
\<close>

theorem main_df_exact:
  "main_df all_df start_date end_date
     = filter (\<lambda>r. \<exists>t. order_purchase_timestamp r = Some t
                      \<and> start_date \<le> dt_date t \<and> dt_date t \<le> end_date) all_df
   \<and> main_df all_df start_date end_date
     = filter (\<lambda>r. \<exists>t. order_purchase_timestamp r = Some t
                      \<and> start_date * ns_per_day \<le> t \<and> t < (end_date + 1) * ns_per_day) all_df
   \<and> length (main_df all_df start_date end_date) \<le> length all_df"
proof -
  have p: "in_range start_date end_date
      = (\<lambda>r. \<exists>t. order_purchase_timestamp r = Some t
                \<and> start_date \<le> dt_date t \<and> dt_date t \<le> end_date)"
    by (auto simp: in_range_def fun_eq_iff split: option.splits)
  have q: "in_range start_date end_date
      = (\<lambda>r. \<exists>t. order_purchase_timestamp r = Some t
                \<and> start_date * ns_per_day \<le> t \<and> t < (end_date + 1) * ns_per_day)"
    unfolding p by (simp only: day_interval)
  have a: "main_df all_df start_date end_date
     = filter (\<lambda>r. \<exists>t. order_purchase_timestamp r = Some t
                      \<and> start_date \<le> dt_date t \<and> dt_date t \<le> end_date) all_df"
    by (simp only: main_df_def p)
  have b: "main_df all_df start_date end_date
     = filter (\<lambda>r. \<exists>t. order_purchase_timestamp r = Some t
                      \<and> start_date * ns_per_day \<le> t \<and> t < (end_date + 1) * ns_per_day) all_df"
    by (simp only: main_df_def q)
  have c: "length (main_df all_df start_date end_date) \<le> length all_df"
    by (simp add: main_df_def)
  from a b c show ?thesis by (intro conjI)
qed

section \<open>Properties of the category aggregate\<close>


lemma set_dropna: "set (dropna xs) = {y. Some y \<in> set xs}"
  by (induction xs rule: dropna.induct) auto

lemma set_group_keys:
  "set (group_keys df) = {k. \<exists>r\<in>set df. product_category_name_english r = Some k}"
  by (force simp: group_keys_def set_dropna image_iff)

lemma distinct_group_keys: "distinct (group_keys df)"
  by (simp add: group_keys_def)

lemma nunique_card: "nunique xs = card {y. Some y \<in> set xs}"
  by (simp add: nunique_def length_remdups_card_conv set_dropna)

lemma finite_present: "finite {y. Some y \<in> set xs}"
  using finite_set [of "dropna xs"] by (simp only: set_dropna)

lemma nunique_pos_iff: "0 < nunique xs \<longleftrightarrow> (\<exists>y. Some y \<in> set xs)"
  by (auto simp: nunique_card card_gt_0_iff finite_present)

lemma map_of_keyed:
  "map_of (map (\<lambda>k. (k, f k)) ks) k = (if k \<in> set ks then Some (f k) else None)"
  by (induction ks) auto

lemma map_of_total_orders_cat:
  "map_of (total_orders_cat df) k =
     (if k \<in> set (group_keys df) then Some (nunique (map order_id (group_rows df k))) else None)"
  by (simp add: total_orders_cat_def map_of_keyed)

lemma map_of_cancel_df:
  "map_of (cancel_df df) k =
     (if k \<in> set (group_keys (filter is_canceled df))
      then Some (nunique (map order_id (group_rows (filter is_canceled df) k))) else None)"
  by (simp add: cancel_df_def Let_def map_of_keyed)

lemma q1_df_keys: "q1_df df = map (q1_of df) (group_keys (filter is_delivered df))"
  by (simp add: q1_df_def merge_left_def rev_df_def Let_def comp_def q1_of_def)

lemma q1_categories: "map q1_category (q1_df df) = group_keys (filter is_delivered df)"
  by (simp add: q1_df_keys comp_def q1_of_def)

lemma delivered_key_in_all:
  "k \<in> set (group_keys (filter is_delivered df)) \<Longrightarrow> k \<in> set (group_keys df)"
  by (auto simp: set_group_keys)

lemma total_orders_pos_iff:
  "0 < nunique (map order_id (group_rows df k))
     \<longleftrightarrow> (\<exists>r\<in>set df. product_category_name_english r = Some k \<and> order_id r \<noteq> None)"
proof -
  have "(\<exists>y. Some y \<in> set (map order_id (group_rows df k)))
      \<longleftrightarrow> (\<exists>r\<in>set df. product_category_name_english r = Some k \<and> order_id r \<noteq> None)"
  proof
    assume "\<exists>y. Some y \<in> set (map order_id (group_rows df k))"
    then obtain y where "Some y \<in> order_id ` set (group_rows df k)" by auto
    then obtain r where r: "r \<in> set (group_rows df k)" and y: "Some y = order_id r"
      by (rule imageE)
    from r have "r \<in> set df" and "product_category_name_english r = Some k"
      by (simp_all add: group_rows_def)
    moreover from y have "order_id r \<noteq> None" by (simp add: y [symmetric])
    ultimately show "\<exists>r\<in>set df. product_category_name_english r = Some k \<and> order_id r \<noteq> None"
      by blast
  next
    assume "\<exists>r\<in>set df. product_category_name_english r = Some k \<and> order_id r \<noteq> None"
    then obtain r y where "r \<in> set (group_rows df k)" "order_id r = Some y"
      by (auto simp: group_rows_def)
    then have "Some y \<in> set (map order_id (group_rows df k))"
      by (simp add: image_iff) (metis)
    then show "\<exists>y. Some y \<in> set (map order_id (group_rows df k))" ..
  qed
  then show ?thesis by (simp only: nunique_pos_iff)
qed

lemma canceled_le_total:
  "nunique (map order_id (group_rows (filter is_canceled df) k))
     \<le> nunique (map order_id (group_rows df k))"
  unfolding nunique_card
proof (rule card_mono)
  show "finite {y. Some y \<in> set (map order_id (group_rows df k))}"
    by (rule finite_present)
  show "{y. Some y \<in> set (map order_id (group_rows (filter is_canceled df) k))}
      \<subseteq> {y. Some y \<in> set (map order_id (group_rows df k))}"
    by (auto simp: group_rows_def)
qed

lemma total_orders_set:
  "nunique (map order_id (group_rows df k))
     = card {i. \<exists>r\<in>set df. product_category_name_english r = Some k \<and> order_id r = Some i}"
proof -
  have "{y. Some y \<in> set (map order_id (group_rows df k))}
      = {i. \<exists>r\<in>set df. product_category_name_english r = Some k \<and> order_id r = Some i}"
    by (force simp: group_rows_def image_iff)
  then show ?thesis by (simp only: nunique_card)
qed

lemma canceled_orders_set:
  "nunique (map order_id (group_rows (filter is_canceled df) k))
     = card {i. \<exists>r\<in>set df. is_canceled r \<and> product_category_name_english r = Some k
                  \<and> order_id r = Some i}"
proof -
  have "{y. Some y \<in> set (map order_id (group_rows (filter is_canceled df) k))}
      = {i. \<exists>r\<in>set df. is_canceled r \<and> product_category_name_english r = Some k
                  \<and> order_id r = Some i}"
    by (force simp: group_rows_def image_iff)
  then show ?thesis by (simp only: nunique_card)
qed

lemma q1_row_in:
  "q \<in> set (q1_df df) \<Longrightarrow>
     q1_category q \<in> set (group_keys (filter is_delivered df)) \<and> q = q1_of df (q1_category q)"
  by (auto simp: q1_df_keys q1_of_def)

lemma fillna0_cancel:
  "fillna0 (map_of (cancel_df df) k) =
     Some (nunique (map order_id (group_rows (filter is_canceled df) k)))"
proof (cases "k \<in> set (group_keys (filter is_canceled df))")
  case True
  then show ?thesis by (simp add: map_of_cancel_df fillna0_def)
next
  case False
  then have "group_rows (filter is_canceled df) k = []"
    by (auto simp: set_group_keys group_rows_def filter_empty_conv)
  with False show ?thesis by (simp add: map_of_cancel_df fillna0_def nunique_def)
qed

lemma q1_row_counts:
  assumes "q \<in> set (q1_df df)"
  shows "q1_total_orders q = Some (nunique (map order_id (group_rows df (q1_category q))))"
    and "q1_canceled_orders q
      = Some (nunique (map order_id (group_rows (filter is_canceled df) (q1_category q))))"
    and "q1_cancellation_rate q
      = cancellation_rate
          (Some (nunique (map order_id (group_rows (filter is_canceled df) (q1_category q)))))
          (Some (nunique (map order_id (group_rows df (q1_category q)))))"
proof -
  define k where "k = q1_category q"
  from assms have key: "k \<in> set (group_keys (filter is_delivered df))" and qe: "q = q1_of df k"
    by (auto simp: q1_df_keys q1_of_def k_def)
  have kin: "k \<in> set (group_keys df)" using key by (rule delivered_key_in_all)
  show "q1_total_orders q = Some (nunique (map order_id (group_rows df (q1_category q))))"
    unfolding k_def [symmetric]
    by (subst qe) (simp add: q1_of_def map_of_total_orders_cat kin)
  have fc: "fillna0 (map_of (cancel_df df) k) =
     Some (nunique (map order_id (group_rows (filter is_canceled df) k)))"
    by (rule fillna0_cancel)
  show "q1_canceled_orders q
      = Some (nunique (map order_id (group_rows (filter is_canceled df) (q1_category q))))"
    unfolding k_def [symmetric]
    by (subst qe) (simp add: q1_of_def fc)
  show "q1_cancellation_rate q
      = cancellation_rate
          (Some (nunique (map order_id (group_rows (filter is_canceled df) (q1_category q)))))
          (Some (nunique (map order_id (group_rows df (q1_category q)))))"
    unfolding k_def [symmetric]
    by (subst qe) (simp add: q1_of_def fc map_of_total_orders_cat kin)
qed

lemma sorted_desc_sort_values:
  "sorted_wrt (\<lambda>a b. q1_total_revenue b \<le> q1_total_revenue a) (sort_values_desc qs)"
proof -
  have "sorted (map (\<lambda>q. - q1_total_revenue q) (sort_values_desc qs))"
    by (simp add: sort_values_desc_def)
  then show ?thesis by (simp add: sorted_map)
qed

text \<open>
  Claim C1. The categories of \<^verbatim>\<open>q1_df\<close> are exactly the categories that have a
  delivered row in the filtered table, each once: a category whose rows are all
  canceled or unavailable is absent. The canceled count of every row is a
  number after \<^verbatim>\<open>fillna(0)\<close>, and it is 0 for a category without a canceled
  or unavailable row.
\<close>

theorem q1_df_categories:
  "set (map q1_category (q1_df df))
     = {c. \<exists>r\<in>set df. is_delivered r \<and> product_category_name_english r = Some c}
   \<and> distinct (map q1_category (q1_df df))
   \<and> (\<forall>q\<in>set (q1_df df).
         q1_canceled_orders q \<noteq> None
         \<and> ((\<forall>r\<in>set df. is_canceled r \<longrightarrow> product_category_name_english r \<noteq> Some (q1_category q))
              \<longrightarrow> q1_canceled_orders q = Some 0))"
proof (intro conjI ballI impI)
  show "set (map q1_category (q1_df df))
     = {c. \<exists>r\<in>set df. is_delivered r \<and> product_category_name_english r = Some c}"
    by (auto simp: q1_categories set_group_keys)
  show "distinct (map q1_category (q1_df df))"
    by (simp add: q1_categories distinct_group_keys)
next
  fix q assume q: "q \<in> set (q1_df df)"
  then have eq: "q1_canceled_orders q
      = Some (nunique (map order_id (group_rows (filter is_canceled df) (q1_category q))))"
    using q1_row_in [OF q] fillna0_cancel [of df "q1_category q"]
    by (metis q1_of_def q1_row.select_convs(4))
  then show "q1_canceled_orders q \<noteq> None" by simp
  assume "\<forall>r\<in>set df. is_canceled r \<longrightarrow> product_category_name_english r \<noteq> Some (q1_category q)"
  then have "group_rows (filter is_canceled df) (q1_category q) = []"
    by (auto simp: group_rows_def filter_empty_conv)
  with eq show "q1_canceled_orders q = Some 0" by (simp add: nunique_def)
qed

theorem q1_df_categories_witness:
  "''Auto'' \<notin> set (map q1_category (q1_df ex_df))
   \<and> ''Bed'' \<in> set (map q1_category (q1_df ex_df))
   \<and> q1_canceled_orders (q1_df ex_df ! 0) = Some 0"
proof -
  note t = q1_df_categories [of ex_df]
  from t have cats: "set (map q1_category (q1_df ex_df))
     = {c. \<exists>r\<in>set ex_df. is_delivered r \<and> product_category_name_english r = Some c}"
    by blast
  have a: "''Auto'' \<notin> set (map q1_category (q1_df ex_df))"
    unfolding cats by (simp add: ex_df_def is_delivered_def)
  have b: "''Bed'' \<in> set (map q1_category (q1_df ex_df))"
    unfolding cats by (simp add: ex_df_def is_delivered_def)
  have len: "length (q1_df ex_df) = 2" by code_simp
  have bed: "q1_category (q1_df ex_df ! 0) = ''Bed''" by code_simp
  have mem: "q1_df ex_df ! 0 \<in> set (q1_df ex_df)" using len by simp
  have nocancel: "\<forall>r\<in>set ex_df. is_canceled r \<longrightarrow>
      product_category_name_english r \<noteq> Some (q1_category (q1_df ex_df ! 0))"
    unfolding bed by (simp add: ex_df_def is_canceled_def)
  from t mem nocancel have "q1_canceled_orders (q1_df ex_df ! 0) = Some 0" by blast
  with a b show ?thesis by blast
qed

text \<open>
  Claim C2, as amended. In every row of \<^verbatim>\<open>q1_df\<close> both counts are present,
  the total is the number of distinct order ids present in the rows of the
  category over all statuses, the canceled count is the number of distinct
  order ids present in its canceled or unavailable rows, and the canceled
  count is at most the total. When the total is at least 1 the rate is
  canceled / total times 100, between 0 and 100. When no row of the category
  carries an order id both counts are 0 and the rate is NaN.
\<close>

theorem q1_df_rate:
  "\<forall>q\<in>set (q1_df df).
     \<exists>c t. q1_canceled_orders q = Some c \<and> q1_total_orders q = Some t
       \<and> t = card {i. \<exists>r\<in>set df. product_category_name_english r = Some (q1_category q)
                        \<and> order_id r = Some i}
       \<and> c = card {i. \<exists>r\<in>set df. is_canceled r
                        \<and> product_category_name_english r = Some (q1_category q)
                        \<and> order_id r = Some i}
       \<and> c \<le> t
       \<and> (1 \<le> t \<longrightarrow>
            q1_cancellation_rate q = Fin (of_nat c / of_nat t * 100)
            \<and> 0 \<le> of_nat c / of_nat t * (100::rat) \<and> of_nat c / of_nat t * (100::rat) \<le> 100)
       \<and> (t = 0 \<longrightarrow> c = 0 \<and> q1_cancellation_rate q = NaN)"
proof
  fix q assume q: "q \<in> set (q1_df df)"
  define k where "k = q1_category q"
  define c where "c = nunique (map order_id (group_rows (filter is_canceled df) k))"
  define t where "t = nunique (map order_id (group_rows df k))"
  have tot: "q1_total_orders q = Some t"
    and can: "q1_canceled_orders q = Some c"
    and rate: "q1_cancellation_rate q = cancellation_rate (Some c) (Some t)"
    using q1_row_counts [OF q] by (simp_all add: c_def t_def k_def)
  have cle: "c \<le> t" unfolding c_def t_def by (rule canceled_le_total)
  have tset: "t = card {i. \<exists>r\<in>set df. product_category_name_english r = Some (q1_category q)
                        \<and> order_id r = Some i}"
    unfolding t_def k_def by (rule total_orders_set)
  have cset: "c = card {i. \<exists>r\<in>set df. is_canceled r
                        \<and> product_category_name_english r = Some (q1_category q)
                        \<and> order_id r = Some i}"
    unfolding c_def k_def by (rule canceled_orders_set)
  have pos: "1 \<le> t \<longrightarrow>
            q1_cancellation_rate q = Fin (of_nat c / of_nat t * 100)
            \<and> 0 \<le> of_nat c / of_nat t * (100::rat) \<and> of_nat c / of_nat t * (100::rat) \<le> 100"
  proof
    assume t1: "1 \<le> t"
    then have tpos: "0 < t" by simp
    have r: "q1_cancellation_rate q = Fin (of_nat c / of_nat t * 100)"
      using tpos by (simp add: rate cancellation_rate_def)
    have lo: "0 \<le> of_nat c / of_nat t * (100::rat)" by simp
    have "(of_nat c :: rat) \<le> of_nat t" using cle by simp
    then have "of_nat c / of_nat t \<le> (1::rat)" using tpos by (simp add: divide_le_eq_1)
    then have "of_nat c / of_nat t * (100::rat) \<le> 1 * 100"
      by (intro mult_right_mono) simp_all
    then have hi: "of_nat c / of_nat t * (100::rat) \<le> 100" by simp
    from r lo hi
    show "q1_cancellation_rate q = Fin (of_nat c / of_nat t * 100)
            \<and> 0 \<le> of_nat c / of_nat t * (100::rat) \<and> of_nat c / of_nat t * (100::rat) \<le> 100"
      by (intro conjI)
  qed
  have zero: "t = 0 \<longrightarrow> c = 0 \<and> q1_cancellation_rate q = NaN"
    using cle by (auto simp: rate cancellation_rate_def)
  from tot can tset cset cle pos zero
  show "\<exists>c t. q1_canceled_orders q = Some c \<and> q1_total_orders q = Some t
       \<and> t = card {i. \<exists>r\<in>set df. product_category_name_english r = Some (q1_category q)
                        \<and> order_id r = Some i}
       \<and> c = card {i. \<exists>r\<in>set df. is_canceled r
                        \<and> product_category_name_english r = Some (q1_category q)
                        \<and> order_id r = Some i}
       \<and> c \<le> t
       \<and> (1 \<le> t \<longrightarrow>
            q1_cancellation_rate q = Fin (of_nat c / of_nat t * 100)
            \<and> 0 \<le> of_nat c / of_nat t * (100::rat) \<and> of_nat c / of_nat t * (100::rat) \<le> 100)
       \<and> (t = 0 \<longrightarrow> c = 0 \<and> q1_cancellation_rate q = NaN)"
    by (intro exI [of _ c] exI [of _ t] conjI)
qed

theorem q1_df_rate_witness:
  "q1_df ex_df ! 1 \<in> set (q1_df ex_df)
   \<and> q1_category (q1_df ex_df ! 1) = ''Toys''
   \<and> q1_canceled_orders (q1_df ex_df ! 1) = Some 1
   \<and> q1_total_orders (q1_df ex_df ! 1) = Some 4
   \<and> q1_cancellation_rate (q1_df ex_df ! 1) = Fin 25
   \<and> q1_df ex_noid_df ! 0 \<in> set (q1_df ex_noid_df)
   \<and> q1_category (q1_df ex_noid_df ! 0) = ''Garden''
   \<and> q1_total_orders (q1_df ex_noid_df ! 0) = Some 0
   \<and> q1_canceled_orders (q1_df ex_noid_df ! 0) = Some 0
   \<and> q1_cancellation_rate (q1_df ex_noid_df ! 0) = NaN"
proof -
  have len: "length (q1_df ex_df) = 2" by code_simp
  have mem: "q1_df ex_df ! 1 \<in> set (q1_df ex_df)" using len by simp
  have toys: "q1_category (q1_df ex_df ! 1) = ''Toys''" by code_simp
  have cv: "q1_canceled_orders (q1_df ex_df ! 1) = Some 1" by code_simp
  have tv: "q1_total_orders (q1_df ex_df ! 1) = Some 4" by code_simp
  from q1_df_rate [of ex_df] mem obtain c t where
    c: "q1_canceled_orders (q1_df ex_df ! 1) = Some c" and
    t: "q1_total_orders (q1_df ex_df ! 1) = Some t" and
    r: "1 \<le> t \<longrightarrow> q1_cancellation_rate (q1_df ex_df ! 1) = Fin (of_nat c / of_nat t * 100)"
    by blast
  from c cv have c1: "c = 1" by simp
  from t tv have t4: "t = 4" by simp
  from r have rate: "q1_cancellation_rate (q1_df ex_df ! 1) = Fin 25" by (simp add: t4 c1)
  have len': "length (q1_df ex_noid_df) = 2" by code_simp
  have mem': "q1_df ex_noid_df ! 0 \<in> set (q1_df ex_noid_df)" using len' by simp
  have garden: "q1_category (q1_df ex_noid_df ! 0) = ''Garden''" by code_simp
  have tv': "q1_total_orders (q1_df ex_noid_df ! 0) = Some 0" by code_simp
  from q1_df_rate [of ex_noid_df] mem' obtain c' t' where
    c': "q1_canceled_orders (q1_df ex_noid_df ! 0) = Some c'" and
    t': "q1_total_orders (q1_df ex_noid_df ! 0) = Some t'" and
    z: "t' = 0 \<longrightarrow> c' = 0 \<and> q1_cancellation_rate (q1_df ex_noid_df ! 0) = NaN"
    by blast
  from t' tv' have t0: "t' = 0" by simp
  from z t0 c' have zero: "q1_canceled_orders (q1_df ex_noid_df ! 0) = Some 0"
    and nan: "q1_cancellation_rate (q1_df ex_noid_df ! 0) = NaN" by simp_all
  from mem toys cv tv rate mem' garden tv' zero nan show ?thesis by (intro conjI)
qed

text \<open>
  The claim as first stated fails on a category whose rows carry no order id:
  it is in the output with a rate that is not a number between 0 and 100.
\<close>

theorem q1_df_rate_counterexample:
  "q1_category (q1_df ex_noid_df ! 0) = ''Garden''
   \<and> q1_canceled_orders (q1_df ex_noid_df ! 0) = Some 0
   \<and> q1_total_orders (q1_df ex_noid_df ! 0) = Some 0
   \<and> q1_cancellation_rate (q1_df ex_noid_df ! 0) = NaN"
  by code_simp

text \<open>
  Claim C3. The top-10 table is in descending order of revenue, its length is
  the smaller of 10 and the number of categories with a delivered row, and
  with fewer than 10 such categories it holds every row of \<^verbatim>\<open>q1_df\<close>.
\<close>

theorem top_10_df_sorted_length:
  "sorted_wrt (\<lambda>a b. q1_total_revenue b \<le> q1_total_revenue a) (top_10_df df)
   \<and> length (top_10_df df)
       = min 10 (card {c. \<exists>r\<in>set df. is_delivered r \<and> product_category_name_english r = Some c})
   \<and> set (top_10_df df) \<subseteq> set (q1_df df)
   \<and> (card {c. \<exists>r\<in>set df. is_delivered r \<and> product_category_name_english r = Some c} < 10
        \<longrightarrow> set (top_10_df df) = set (q1_df df))"
proof -
  let ?n = "card {c. \<exists>r\<in>set df. is_delivered r \<and> product_category_name_english r = Some c}"
  have len: "length (q1_df df) = ?n"
  proof -
    have "length (q1_df df) = length (group_keys (filter is_delivered df))"
      by (simp add: q1_df_keys)
    also have "\<dots> = card (set (group_keys (filter is_delivered df)))"
      by (simp add: distinct_card distinct_group_keys)
    also have "set (group_keys (filter is_delivered df))
        = {c. \<exists>r\<in>set df. is_delivered r \<and> product_category_name_english r = Some c}"
      by (auto simp: set_group_keys)
    finally show ?thesis .
  qed
  have s: "sorted_wrt (\<lambda>a b. q1_total_revenue b \<le> q1_total_revenue a) (top_10_df df)"
    unfolding top_10_df_def by (rule sorted_wrt_take) (rule sorted_desc_sort_values)
  have l: "length (top_10_df df) = min 10 ?n"
    by (simp add: top_10_df_def sort_values_desc_def len min.commute)
  have sub: "set (top_10_df df) \<subseteq> set (q1_df df)"
    using set_take_subset [of 10 "sort_values_desc (q1_df df)"]
    by (simp add: top_10_df_def sort_values_desc_def)
  have all: "?n < 10 \<longrightarrow> set (top_10_df df) = set (q1_df df)"
    by (simp add: top_10_df_def sort_values_desc_def len)
  from s l sub all show ?thesis by blast
qed

theorem top_10_df_sorted_length_witness:
  "card {c. \<exists>r\<in>set ex_df. is_delivered r \<and> product_category_name_english r = Some c} < 10
   \<and> length (top_10_df ex_df) = 2
   \<and> set (top_10_df ex_df) = set (q1_df ex_df)"
proof -
  have cats: "{c. \<exists>r\<in>set ex_df. is_delivered r \<and> product_category_name_english r = Some c}
      = {''Toys'', ''Bed''}"
    by (auto simp: ex_df_def is_delivered_def)
  have n: "card {c. \<exists>r\<in>set ex_df. is_delivered r \<and> product_category_name_english r = Some c} = 2"
    unfolding cats by simp
  from top_10_df_sorted_length [of ex_df] show ?thesis unfolding n by simp
qed

text \<open>
  Claim C10, as amended. The total joined onto a row of \<^verbatim>\<open>q1_df\<close> is always
  present. It is at least 1 exactly when some row of the category carries an
  order id, as every row does in a table without empty order ids; the rate is
  then a finite number. When no row of the category carries an order id the
  total is 0 and line 142 divides 0 by 0: the rate is NaN.
\<close>

theorem q1_df_denominator:
  "\<forall>q\<in>set (q1_df df).
     \<exists>t. q1_total_orders q = Some t
       \<and> ((1 \<le> t) = (\<exists>r\<in>set df. product_category_name_english r = Some (q1_category q)
                                   \<and> order_id r \<noteq> None))
       \<and> ((\<forall>r\<in>set df. order_id r \<noteq> None) \<longrightarrow> 1 \<le> t)
       \<and> (1 \<le> t \<longrightarrow> (\<exists>x. q1_cancellation_rate q = Fin x))
       \<and> (t = 0 \<longrightarrow> q1_cancellation_rate q = NaN)"
proof
  fix q assume q: "q \<in> set (q1_df df)"
  define k where "k = q1_category q"
  define c where "c = nunique (map order_id (group_rows (filter is_canceled df) k))"
  define t where "t = nunique (map order_id (group_rows df k))"
  have tot: "q1_total_orders q = Some t"
    and rate: "q1_cancellation_rate q = cancellation_rate (Some c) (Some t)"
    using q1_row_counts [OF q] by (simp_all add: c_def t_def k_def)
  have cle: "c \<le> t" unfolding c_def t_def by (rule canceled_le_total)
  have iff: "(1 \<le> t) = (\<exists>r\<in>set df. product_category_name_english r = Some (q1_category q)
                                   \<and> order_id r \<noteq> None)"
    using total_orders_pos_iff [of df k] by (simp add: t_def k_def Suc_le_eq)
  from q1_row_in [OF q] have "k \<in> set (group_keys df)"
    unfolding k_def by (simp add: delivered_key_in_all)
  then obtain r where rin: "r \<in> set df" and rk: "product_category_name_english r = Some k"
    by (auto simp: set_group_keys)
  have allid: "(\<forall>r\<in>set df. order_id r \<noteq> None) \<longrightarrow> 1 \<le> t"
    using iff rin rk unfolding k_def by blast
  have fin: "1 \<le> t \<longrightarrow> (\<exists>x. q1_cancellation_rate q = Fin x)"
    by (simp add: rate cancellation_rate_def)
  have nan: "t = 0 \<longrightarrow> q1_cancellation_rate q = NaN"
    using cle by (auto simp: rate cancellation_rate_def)
  from tot iff allid fin nan
  show "\<exists>t. q1_total_orders q = Some t
       \<and> ((1 \<le> t) = (\<exists>r\<in>set df. product_category_name_english r = Some (q1_category q)
                                   \<and> order_id r \<noteq> None))
       \<and> ((\<forall>r\<in>set df. order_id r \<noteq> None) \<longrightarrow> 1 \<le> t)
       \<and> (1 \<le> t \<longrightarrow> (\<exists>x. q1_cancellation_rate q = Fin x))
       \<and> (t = 0 \<longrightarrow> q1_cancellation_rate q = NaN)"
    by blast
qed

theorem q1_df_denominator_witness:
  "q1_df ex_df ! 1 \<in> set (q1_df ex_df)
   \<and> (\<exists>t. q1_total_orders (q1_df ex_df ! 1) = Some t \<and> 1 \<le> t
          \<and> (\<exists>x. q1_cancellation_rate (q1_df ex_df ! 1) = Fin x))
   \<and> q1_df ex_noid_df ! 0 \<in> set (q1_df ex_noid_df)
   \<and> q1_total_orders (q1_df ex_noid_df ! 0) = Some 0
   \<and> q1_cancellation_rate (q1_df ex_noid_df ! 0) = NaN"
proof -
  have len: "length (q1_df ex_df) = 2" by code_simp
  have mem: "q1_df ex_df ! 1 \<in> set (q1_df ex_df)" using len by simp
  have ids: "\<forall>r\<in>set ex_df. order_id r \<noteq> None" by (simp add: ex_df_def)
  from q1_df_denominator [of ex_df] mem ids
  have a: "\<exists>t. q1_total_orders (q1_df ex_df ! 1) = Some t \<and> 1 \<le> t
          \<and> (\<exists>x. q1_cancellation_rate (q1_df ex_df ! 1) = Fin x)"
    by blast
  have len': "length (q1_df ex_noid_df) = 2" by code_simp
  have mem': "q1_df ex_noid_df ! 0 \<in> set (q1_df ex_noid_df)" using len' by simp
  have tv': "q1_total_orders (q1_df ex_noid_df ! 0) = Some 0" by code_simp
  from q1_df_denominator [of ex_noid_df] mem' obtain t' where
    t': "q1_total_orders (q1_df ex_noid_df ! 0) = Some t'" and
    z: "t' = 0 \<longrightarrow> q1_cancellation_rate (q1_df ex_noid_df ! 0) = NaN"
    by blast
  from t' tv' have "t' = 0" by simp
  with z have nan: "q1_cancellation_rate (q1_df ex_noid_df ! 0) = NaN" by simp
  from mem a mem' tv' nan show ?thesis by (intro conjI)
qed

text \<open>
  The claim as first stated fails on a table whose only row is a delivered
  order without an order id: the category is in the output, the total joined
  onto it is 0, and the division of line 142 is 0 by 0.
\<close>

theorem q1_df_denominator_counterexample:
  "q1_df ex_one_noid_df ! 0 \<in> set (q1_df ex_one_noid_df)
   \<and> q1_total_orders (q1_df ex_one_noid_df ! 0) = Some 0
   \<and> q1_cancellation_rate (q1_df ex_one_noid_df ! 0)
       = cancellation_rate (Some 0) (Some 0)
   \<and> cancellation_rate (Some 0) (Some 0) = NaN"
  by code_simp

section \<open>Properties of the delay aggregate\<close>

lemma q2_row_in:
  assumes "q \<in> set (q2_df df)"
  shows "q2_source q \<in> set df \<and> q2_valid (q2_source q)
     \<and> delay_days q = delay_of (q2_source q)
     \<and> delivery_status q = status_of (delay_days q)"
  using assms by (auto simp: q2_df_def)

lemma q2_valid_dates:
  "q2_valid r \<longleftrightarrow>
     order_status r = ''delivered''
     \<and> (\<exists>a. order_delivered_customer_date r = Some a)
     \<and> (\<exists>e. order_estimated_delivery_date r = Some e)"
  by (auto simp: q2_valid_def is_delivered_def)

lemma score_summary_get:
  "series_get (score_summary q2) k (Fin 0)
     = (if filter (\<lambda>q. delivery_status q = k) q2 = [] then Fin 0
        else mean_skipna (map (\<lambda>q. review_score (q2_source q)) (filter (\<lambda>q. delivery_status q = k) q2)))"
proof -
  have "(filter (\<lambda>q. delivery_status q = k) q2 = []) = (k \<notin> set (map delivery_status q2))"
    by (auto simp: filter_empty_conv)
  then show ?thesis
    by (simp add: series_get_def score_summary_def map_of_keyed)
qed

lemma late_bucket:
  "filter (\<lambda>q. delivery_status q = ''Terlambat (Late)'') (q2_df df) = spec_late_rows (q2_df df)"
  unfolding spec_late_rows_def
proof (rule filter_cong [OF refl])
  fix q assume "q \<in> set (q2_df df)"
  then have "delivery_status q = status_of (delay_days q)" by (simp add: q2_row_in)
  then show "(delivery_status q = ''Terlambat (Late)'')
      = (case delay_days q of None \<Rightarrow> False | Some d \<Rightarrow> 0 < d)"
    by (simp add: status_of_def split: option.splits)
qed

lemma ontime_bucket:
  "filter (\<lambda>q. delivery_status q = ''Tepat Waktu (On Time)'') (q2_df df) = spec_ontime_rows (q2_df df)"
  unfolding spec_ontime_rows_def
proof (rule filter_cong [OF refl])
  fix q assume q: "q \<in> set (q2_df df)"
  then have s: "delivery_status q = status_of (delay_days q)" by (simp add: q2_row_in)
  from q obtain d where "delay_days q = Some d"
    using q2_row_in [OF q] by (auto simp: q2_valid_dates delay_of_def)
  with s show "(delivery_status q = ''Tepat Waktu (On Time)'')
      = (case delay_days q of None \<Rightarrow> False | Some d \<Rightarrow> d \<le> 0)"
    by (auto simp: status_of_def)
qed

text \<open>
  Claim C4. The rows of \<^verbatim>\<open>q2_df\<close> are the delivered rows with both delivery
  dates present. The delay of a row is the number of whole days in the
  difference of the delivered and the estimated timestamp, rounded down, so
  it may be negative. A delay above 0 is Late, any other delay is On Time;
  a delay of 0 is On Time.
\<close>

theorem q2_df_delay_bucket:
  "map q2_source (q2_df df)
     = filter (\<lambda>r. order_status r = ''delivered''
                 \<and> (\<exists>a. order_delivered_customer_date r = Some a)
                 \<and> (\<exists>e. order_estimated_delivery_date r = Some e)) df
   \<and> (\<forall>q\<in>set (q2_df df).
        \<exists>a e d. order_delivered_customer_date (q2_source q) = Some a
          \<and> order_estimated_delivery_date (q2_source q) = Some e
          \<and> delay_days q = Some d
          \<and> d = (a - e) div ns_per_day
          \<and> d * ns_per_day \<le> a - e \<and> a - e < (d + 1) * ns_per_day
          \<and> delivery_status q
              = (if 0 < d then ''Terlambat (Late)'' else ''Tepat Waktu (On Time)'')
          \<and> (d = 0 \<longrightarrow> delivery_status q = ''Tepat Waktu (On Time)''))"
proof (intro conjI ballI)
  have "q2_valid = (\<lambda>r. order_status r = ''delivered''
                 \<and> (\<exists>a. order_delivered_customer_date r = Some a)
                 \<and> (\<exists>e. order_estimated_delivery_date r = Some e))"
    by (simp add: fun_eq_iff q2_valid_dates)
  then show "map q2_source (q2_df df)
     = filter (\<lambda>r. order_status r = ''delivered''
                 \<and> (\<exists>a. order_delivered_customer_date r = Some a)
                 \<and> (\<exists>e. order_estimated_delivery_date r = Some e)) df"
    by (simp add: q2_df_def comp_def)
next
  fix q assume q: "q \<in> set (q2_df df)"
  from q2_row_in [OF q] have v: "q2_valid (q2_source q)"
    and dl: "delay_days q = delay_of (q2_source q)"
    and s: "delivery_status q = status_of (delay_days q)" by simp_all
  from v obtain a e where a: "order_delivered_customer_date (q2_source q) = Some a"
    and e: "order_estimated_delivery_date (q2_source q) = Some e"
    by (auto simp: q2_valid_dates)
  define d where "d = (a - e) div ns_per_day"
  have dd: "delay_days q = Some d"
    by (simp add: dl delay_of_def a e dt_days_def d_def)
  have lo: "d * ns_per_day \<le> a - e"
    using le_div_int [OF ns_per_day_pos, of d "a - e"] by (simp add: d_def)
  have hi: "a - e < (d + 1) * ns_per_day"
    using div_le_int [OF ns_per_day_pos, of "a - e" d] by (simp add: d_def)
  have st: "delivery_status q
      = (if 0 < d then ''Terlambat (Late)'' else ''Tepat Waktu (On Time)'')"
    by (simp add: s dd status_of_def)
  have z: "d = 0 \<longrightarrow> delivery_status q = ''Tepat Waktu (On Time)''"
    by (simp add: st)
  from a e dd d_def lo hi st z
  show "\<exists>a e d. order_delivered_customer_date (q2_source q) = Some a
          \<and> order_estimated_delivery_date (q2_source q) = Some e
          \<and> delay_days q = Some d
          \<and> d = (a - e) div ns_per_day
          \<and> d * ns_per_day \<le> a - e \<and> a - e < (d + 1) * ns_per_day
          \<and> delivery_status q
              = (if 0 < d then ''Terlambat (Late)'' else ''Tepat Waktu (On Time)'')
          \<and> (d = 0 \<longrightarrow> delivery_status q = ''Tepat Waktu (On Time)'')"
    by blast
qed

theorem q2_df_delay_bucket_witness:
  "q2_df ex_df ! 2 \<in> set (q2_df ex_df)
   \<and> delay_days (q2_df ex_df ! 2) = Some 0
   \<and> delivery_status (q2_df ex_df ! 2) = ''Tepat Waktu (On Time)''"
proof -
  have len: "length (q2_df ex_df) = 3" by code_simp
  have mem: "q2_df ex_df ! 2 \<in> set (q2_df ex_df)" using len by simp
  have a0: "order_delivered_customer_date (q2_source (q2_df ex_df ! 2)) = Some (19002 * ns_per_day + 5)"
    by code_simp
  have e0: "order_estimated_delivery_date (q2_source (q2_df ex_df ! 2)) = Some (19002 * ns_per_day)"
    by code_simp
  from q2_df_delay_bucket [of ex_df] mem obtain a e d where
    a: "order_delivered_customer_date (q2_source (q2_df ex_df ! 2)) = Some a" and
    e: "order_estimated_delivery_date (q2_source (q2_df ex_df ! 2)) = Some e" and
    dd: "delay_days (q2_df ex_df ! 2) = Some d" and
    dv: "d = (a - e) div ns_per_day" and
    z: "d = 0 \<longrightarrow> delivery_status (q2_df ex_df ! 2) = ''Tepat Waktu (On Time)''"
    by blast
  from a a0 have av: "a = 19002 * ns_per_day + 5" by simp
  from e e0 have ev: "e = 19002 * ns_per_day" by simp
  have zero: "d = 0" by (simp add: dv av ev ns_per_day_def)
  from dd z zero mem show ?thesis by simp
qed

text \<open>
  Claim C5. The delay section shows the mean review score of the on-time rows
  and of the late rows (0 for a bucket without rows), and the drop quoted in
  the text is the on-time score minus the late score: with both means finite,
  the on-time mean minus the late mean. A run that reaches the end shows this
  report.
\<close>

theorem render_scores:
  "d_q2 (delay_section df) = q2_df df
   \<and> d_late_score (delay_section df)
       = (if spec_late_rows (q2_df df) = [] then Fin 0
          else spec_bucket_mean (spec_late_rows (q2_df df)))
   \<and> d_ontime_score (delay_section df)
       = (if spec_ontime_rows (q2_df df) = [] then Fin 0
          else spec_bucket_mean (spec_ontime_rows (q2_df df)))
   \<and> d_narrative_drop (delay_section df)
       = fsub (d_ontime_score (delay_section df)) (d_late_score (delay_section df))
   \<and> (\<forall>m_on m_late.
         spec_ontime_rows (q2_df df) \<noteq> [] \<and> spec_bucket_mean (spec_ontime_rows (q2_df df)) = Fin m_on
         \<and> spec_late_rows (q2_df df) \<noteq> [] \<and> spec_bucket_mean (spec_late_rows (q2_df df)) = Fin m_late
         \<longrightarrow> d_ontime_score (delay_section df) = Fin m_on
             \<and> d_late_score (delay_section df) = Fin m_late
             \<and> d_narrative_drop (delay_section df) = Fin (m_on - m_late))
   \<and> (\<forall>d. render df = Inr d \<longrightarrow> d_delay d = delay_section df)"
proof -
  have l: "d_late_score (delay_section df)
       = (if spec_late_rows (q2_df df) = [] then Fin 0
          else spec_bucket_mean (spec_late_rows (q2_df df)))"
    by (simp add: delay_section_def Let_def late_score_def score_summary_get late_bucket spec_bucket_mean_def)
  have o: "d_ontime_score (delay_section df)
       = (if spec_ontime_rows (q2_df df) = [] then Fin 0
          else spec_bucket_mean (spec_ontime_rows (q2_df df)))"
    by (simp add: delay_section_def Let_def ontime_score_def score_summary_get ontime_bucket spec_bucket_mean_def)
  have q: "d_q2 (delay_section df) = q2_df df" by (simp add: delay_section_def Let_def)
  have n: "d_narrative_drop (delay_section df)
       = fsub (d_ontime_score (delay_section df)) (d_late_score (delay_section df))"
    by (simp add: delay_section_def Let_def)
  have m: "\<forall>m_on m_late.
         spec_ontime_rows (q2_df df) \<noteq> [] \<and> spec_bucket_mean (spec_ontime_rows (q2_df df)) = Fin m_on
         \<and> spec_late_rows (q2_df df) \<noteq> [] \<and> spec_bucket_mean (spec_late_rows (q2_df df)) = Fin m_late
         \<longrightarrow> d_ontime_score (delay_section df) = Fin m_on
             \<and> d_late_score (delay_section df) = Fin m_late
             \<and> d_narrative_drop (delay_section df) = Fin (m_on - m_late)"
    by (simp add: n l o)
  have r: "\<forall>d. render df = Inr d \<longrightarrow> d_delay d = delay_section df"
    by (auto simp: render_def Let_def split: sum.splits)
  from q l o n m r show ?thesis by (intro conjI)
qed

theorem render_scores_witness:
  "spec_ontime_rows (q2_df ex_df) \<noteq> []
   \<and> spec_bucket_mean (spec_ontime_rows (q2_df ex_df)) = Fin (9 / 2)
   \<and> spec_late_rows (q2_df ex_df) \<noteq> []
   \<and> spec_bucket_mean (spec_late_rows (q2_df ex_df)) = Fin 2
   \<and> d_ontime_score (delay_section ex_df) = Fin (9 / 2)
   \<and> d_late_score (delay_section ex_df) = Fin 2
   \<and> d_narrative_drop (delay_section ex_df) = Fin (5 / 2)
   \<and> (\<exists>d. render ex_df = Inr d \<and> d_delay d = delay_section ex_df
          \<and> d_narrative_drop (d_delay d) = Fin (5 / 2))"
proof -
  have o: "spec_ontime_rows (q2_df ex_df) \<noteq> []" by code_simp
  have om: "spec_bucket_mean (spec_ontime_rows (q2_df ex_df)) = Fin (9 / 2)" by code_simp
  have l: "spec_late_rows (q2_df ex_df) \<noteq> []" by code_simp
  have lm: "spec_bucket_mean (spec_late_rows (q2_df ex_df)) = Fin 2" by code_simp
  from render_scores [of ex_df] o om l lm
  have "d_ontime_score (delay_section ex_df) = Fin (9 / 2)
      \<and> d_late_score (delay_section ex_df) = Fin 2
      \<and> d_narrative_drop (delay_section ex_df) = Fin (9 / 2 - 2)"
    by blast
  then have v: "d_ontime_score (delay_section ex_df) = Fin (9 / 2)
      \<and> d_late_score (delay_section ex_df) = Fin 2
      \<and> d_narrative_drop (delay_section ex_df) = Fin (5 / 2)"
    by simp
  have ok: "set_ylim (Fin 0) (ylim_top (top_10_df ex_df)) = Inr ()" by code_simp
  then obtain d where d: "render ex_df = Inr d"
    by (simp add: render_def Let_def)
  with render_scores [of ex_df] have dd: "d_delay d = delay_section ex_df" by blast
  from d dd v have "\<exists>d. render ex_df = Inr d \<and> d_delay d = delay_section ex_df
          \<and> d_narrative_drop (d_delay d) = Fin (5 / 2)"
    by simp
  with o om l lm v show ?thesis by blast
qed

section \<open>Properties of the script\<close>

lemma render_no_category:
  "top_10_df df = [] \<Longrightarrow> render df = Inl ValueError"
  by (simp add: render_def Let_def ylim_top_def max_skipna_def set_ylim_def)

text \<open>
  Claim C7. When the filter leaves no row the aggregates have the values the
  claim gives: the revenue is 0, the number of orders is 0, the average score
  is NaN (not 0) and prints as \<^verbatim>\<open>nan\<close>, and the top-10 table is empty. The
  run does not end well all the same: the maximum of the empty rate column is
  NaN, and line 165 hands it to \<^verbatim>\<open>set_ylim\<close>, which raises. Here the sample
  table is filtered to two days without a purchase, and the sample file to two
  days without a purchase.
\<close>

theorem render_empty_raises:
  "main_df ex_df 18998 18999 = []
   \<and> total_revenue (main_df ex_df 18998 18999) = 0
   \<and> total_order (main_df ex_df 18998 18999) = 0
   \<and> avg_score (main_df ex_df 18998 18999) = NaN
   \<and> avg_score_label (\<lambda>q. ''?'') (main_df ex_df 18998 18999) = ''nan / 5.0''
   \<and> top_10_df (main_df ex_df 18998 18999) = []
   \<and> ylim_top (top_10_df (main_df ex_df 18998 18999)) = NaN
   \<and> render (main_df ex_df 18998 18999) = Inl ValueError
   \<and> dashboard_script ex_parse (Some ex_csv) 18995 18996 = Raised [] ValueError"
proof -
  have e: "main_df ex_df 18998 18999 = []"
    by (simp add: main_df_def ex_df_def in_range_def dt_date_def ns_per_day_def)
  have k: "total_revenue [] = 0 \<and> total_order [] = 0 \<and> avg_score [] = NaN"
    by (simp add: total_revenue_def total_order_def avg_score_def sum_skipna_def
        nunique_def mean_skipna_def)
  have l: "avg_score_label (\<lambda>q. ''?'') [] = ''nan / 5.0''"
    by (simp add: avg_score_label_def avg_score_def mean_skipna_def format_2f_def)
  have t: "top_10_df [] = []"
    by (simp add: top_10_df_def sort_values_desc_def q1_df_def merge_left_def
        rev_df_def group_keys_def)
  have y: "ylim_top [] = NaN" by (simp add: ylim_top_def max_skipna_def)
  have r: "render [] = Inl ValueError" using t by (rule render_no_category)
  have s: "dashboard_script ex_parse (Some ex_csv) 18995 18996 = Raised [] ValueError"
    by code_simp
  from e k l t y r s show ?thesis by simp
qed

text \<open>
  Claim C8. With the start date after the end date the run shows the
  invalid-range error and stops: the outcome carries no dashboard, whatever
  the table. The session goes on, and the next run with a valid range is the
  run that a first run with that range would be: it goes through the filter
  and the sections as if the invalid input had not been made.
\<close>

theorem invalid_range_stops:
  "end_date < start_date \<longrightarrow>
     dashboard_script parse (Some csv) start_date end_date = Stopped [InvalidRange]
     \<and> (\<forall>s e. s \<le> e \<longrightarrow>
           session parse (Some csv) [(start_date, end_date), (s, e)]
             = [Stopped [InvalidRange],
                (case render (main_df (map (convert_dates parse) csv) s e) of
                   Inl err \<Rightarrow> Raised [] err
                 | Inr d \<Rightarrow> Rendered [] d)]
           \<and> session parse (Some csv) [(start_date, end_date), (s, e)]
             = [Stopped [InvalidRange], dashboard_script parse (Some csv) s e])"
  by (simp add: session_def dashboard_script_def load_data_def)

theorem invalid_range_stops_witness:
  "(18993::int) < 19024
   \<and> dashboard_script ex_parse (Some ex_csv) 19024 18993 = Stopped [InvalidRange]
   \<and> (\<exists>d. session ex_parse (Some ex_csv) [(19024, 18993), (18993, 19002)]
             = [Stopped [InvalidRange], Rendered [] d] \<and> d_total_order d = 2)"
proof -
  have h: "(18993::int) < 19024" by simp
  have v: "(18993::int) \<le> 19002" by simp
  from invalid_range_stops [of 18993 19024 ex_parse ex_csv] h
  have a: "dashboard_script ex_parse (Some ex_csv) 19024 18993 = Stopped [InvalidRange]"
    and b: "\<forall>s e. s \<le> e \<longrightarrow>
           session ex_parse (Some ex_csv) [(19024, 18993), (s, e)]
             = [Stopped [InvalidRange],
                (case render (main_df (map (convert_dates ex_parse) ex_csv) s e) of
                   Inl err \<Rightarrow> Raised [] err
                 | Inr d \<Rightarrow> Rendered [] d)]"
    by blast+
  from b v have c: "session ex_parse (Some ex_csv) [(19024, 18993), (18993, 19002)]
             = [Stopped [InvalidRange],
                (case render (main_df (map (convert_dates ex_parse) ex_csv) 18993 19002) of
                   Inl err \<Rightarrow> Raised [] err
                 | Inr d \<Rightarrow> Rendered [] d)]"
    by blast
  have ok: "set_ylim (Fin 0)
      (ylim_top (top_10_df (main_df (map (convert_dates ex_parse) ex_csv) 18993 19002))) = Inr ()"
    by code_simp
  then obtain d where d: "render (main_df (map (convert_dates ex_parse) ex_csv) 18993 19002) = Inr d"
    by (simp add: render_def Let_def)
  then have n: "d_total_order d
      = total_order (main_df (map (convert_dates ex_parse) ex_csv) 18993 19002)"
    using ok by (auto simp: render_def Let_def)
  have n2: "total_order (main_df (map (convert_dates ex_parse) ex_csv) 18993 19002) = 2"
    by code_simp
  from h a c d n n2 show ?thesis by simp
qed

text \<open>
  Claim C9. Without the file \<^verbatim>\<open>load_data\<close> shows the data-not-found error and
  returns no table, and the script stops there. With the file it returns one
  row per line; each of the three date cells is the parsed timestamp, and a
  text the parser rejects becomes a missing date.
\<close>

theorem load_data_cases:
  "load_data parse None = ([DataNotFound], None)
   \<and> dashboard_script parse None start_date end_date = Stopped [DataNotFound]
   \<and> (\<exists>all_df. load_data parse (Some csv) = ([], Some all_df)
         \<and> length all_df = length csv
         \<and> (\<forall>i<length csv.
               order_id (all_df ! i) = order_id (csv ! i)
               \<and> order_purchase_timestamp (all_df ! i)
                   = (case order_purchase_timestamp (csv ! i) of None \<Rightarrow> None | Some s \<Rightarrow> parse s)
               \<and> order_delivered_customer_date (all_df ! i)
                   = (case order_delivered_customer_date (csv ! i) of None \<Rightarrow> None | Some s \<Rightarrow> parse s)
               \<and> order_estimated_delivery_date (all_df ! i)
                   = (case order_estimated_delivery_date (csv ! i) of None \<Rightarrow> None | Some s \<Rightarrow> parse s)
               \<and> (\<forall>s. order_estimated_delivery_date (csv ! i) = Some s \<and> parse s = None
                      \<longrightarrow> order_estimated_delivery_date (all_df ! i) = None)))"
proof (intro conjI)
  show "load_data parse None = ([DataNotFound], None)"
    by (simp add: load_data_def)
  show "dashboard_script parse None start_date end_date = Stopped [DataNotFound]"
    by (simp add: dashboard_script_def load_data_def)
  show "\<exists>all_df. load_data parse (Some csv) = ([], Some all_df)
         \<and> length all_df = length csv
         \<and> (\<forall>i<length csv.
               order_id (all_df ! i) = order_id (csv ! i)
               \<and> order_purchase_timestamp (all_df ! i)
                   = (case order_purchase_timestamp (csv ! i) of None \<Rightarrow> None | Some s \<Rightarrow> parse s)
               \<and> order_delivered_customer_date (all_df ! i)
                   = (case order_delivered_customer_date (csv ! i) of None \<Rightarrow> None | Some s \<Rightarrow> parse s)
               \<and> order_estimated_delivery_date (all_df ! i)
                   = (case order_estimated_delivery_date (csv ! i) of None \<Rightarrow> None | Some s \<Rightarrow> parse s)
               \<and> (\<forall>s. order_estimated_delivery_date (csv ! i) = Some s \<and> parse s = None
                      \<longrightarrow> order_estimated_delivery_date (all_df ! i) = None))"
    by (rule exI [of _ "map (convert_dates parse) csv"])
       (simp add: load_data_def convert_dates_def to_datetime_coerce_def)
qed

theorem load_data_cases_witness:
  "(1::nat) < length ex_csv
   \<and> order_estimated_delivery_date (ex_csv ! 1) = Some ''10/01/22 ??''
   \<and> ex_parse ''10/01/22 ??'' = None
   \<and> (\<exists>all_df. load_data ex_parse (Some ex_csv) = ([], Some all_df)
         \<and> length all_df = 2
         \<and> order_estimated_delivery_date (all_df ! 1) = None
         \<and> order_purchase_timestamp (all_df ! 1) = Some (19002 * ns_per_day))"
proof -
  have len: "length ex_csv = 2" by (simp add: ex_csv_def)
  have i: "(1::nat) < length ex_csv" by (simp add: len)
  have raw: "order_estimated_delivery_date (ex_csv ! 1) = Some ''10/01/22 ??''"
    by (simp add: ex_csv_def)
  have rawp: "order_purchase_timestamp (ex_csv ! 1) = Some ''2022-01-10 00:00:00''"
    by (simp add: ex_csv_def)
  have bad: "ex_parse ''10/01/22 ??'' = None" by (simp add: ex_parse_def)
  have good: "ex_parse ''2022-01-10 00:00:00'' = Some (19002 * ns_per_day)" by (simp add: ex_parse_def)
  from load_data_cases [of ex_parse 0 0 ex_csv] obtain all_df where
    l: "load_data ex_parse (Some ex_csv) = ([], Some all_df)" and
    n: "length all_df = length ex_csv" and
    a: "\<forall>i<length ex_csv.
               order_id (all_df ! i) = order_id (ex_csv ! i)
               \<and> order_purchase_timestamp (all_df ! i)
                   = (case order_purchase_timestamp (ex_csv ! i) of None \<Rightarrow> None | Some s \<Rightarrow> ex_parse s)
               \<and> order_delivered_customer_date (all_df ! i)
                   = (case order_delivered_customer_date (ex_csv ! i) of None \<Rightarrow> None | Some s \<Rightarrow> ex_parse s)
               \<and> order_estimated_delivery_date (all_df ! i)
                   = (case order_estimated_delivery_date (ex_csv ! i) of None \<Rightarrow> None | Some s \<Rightarrow> ex_parse s)
               \<and> (\<forall>s. order_estimated_delivery_date (ex_csv ! i) = Some s \<and> ex_parse s = None
                      \<longrightarrow> order_estimated_delivery_date (all_df ! i) = None)"
    by blast
  from a i raw bad have e: "order_estimated_delivery_date (all_df ! 1) = None" by blast
  from a i have "order_purchase_timestamp (all_df ! 1)
                   = (case order_purchase_timestamp (ex_csv ! 1) of None \<Rightarrow> None | Some s \<Rightarrow> ex_parse s)"
    by blast
  then have p: "order_purchase_timestamp (all_df ! 1) = Some (19002 * ns_per_day)"
    by (simp only: rawp option.case good)
  from i raw bad l n e p len show ?thesis by auto
qed

end
